theory Spec2Isabelle
  imports Complex_Main
begin

section \<open>Outcomes of the Python code\<close>

text \<open>
  The nodes of \<^verbatim>\<open>nodes.py\<close> either return a value or leave through an exception.
  An exception is \<open>Raised\<close> when a \<^verbatim>\<open>raise\<close> statement of \<^verbatim>\<open>nodes.py\<close> itself
  throws it, and \<open>Propagated\<close> when it is thrown inside the interpreter or a library call
  (numpy, torch, huggingface_hub) and nothing in \<^verbatim>\<open>nodes.py\<close> catches it; there is no
  \<^verbatim>\<open>try\<close> around any of the modelled statements.
\<close>

datatype py_exn =
  ValueError | IndexError | TypeError | KeyError | ZeroDivisionError | RuntimeError
  | LinAlgError | OSError

datatype failure = Raised py_exn | Propagated py_exn

section \<open>Floats\<close>

text \<open>
  Coordinates are numpy floats in the source. Finite values are modelled as exact reals:
  rounding is not modelled. A float divided by the float zero does not raise: numpy warns
  and gives \<^verbatim>\<open>inf\<close>, \<^verbatim>\<open>-inf\<close> or \<^verbatim>\<open>nan\<close>, and the computation goes on. The values that
  can follow such a division are of type \<open>xreal\<close>, with the IEEE 754 rules for the
  infinities and NaN.
\<close>

datatype xreal = Fin real | PInf | MInf | NaN

definition signed_inf :: "real \<Rightarrow> xreal" where
  "signed_inf u = (if 0 < u then PInf else if u < 0 then MInf else NaN)"

fun xneg :: "xreal \<Rightarrow> xreal" where
  "xneg (Fin u) = Fin (- u)"
| "xneg PInf = MInf"
| "xneg MInf = PInf"
| "xneg NaN = NaN"

fun xadd :: "xreal \<Rightarrow> xreal \<Rightarrow> xreal" where
  "xadd NaN w = NaN"
| "xadd v NaN = NaN"
| "xadd (Fin u) (Fin v) = Fin (u + v)"
| "xadd (Fin u) w = w"
| "xadd v (Fin u) = v"
| "xadd PInf PInf = PInf"
| "xadd MInf MInf = MInf"
| "xadd PInf MInf = NaN"
| "xadd MInf PInf = NaN"

fun xmul :: "xreal \<Rightarrow> xreal \<Rightarrow> xreal" where
  "xmul NaN w = NaN"
| "xmul v NaN = NaN"
| "xmul (Fin u) (Fin v) = Fin (u * v)"
| "xmul (Fin u) PInf = signed_inf u"
| "xmul (Fin u) MInf = signed_inf (- u)"
| "xmul PInf (Fin u) = signed_inf u"
| "xmul MInf (Fin u) = signed_inf (- u)"
| "xmul PInf PInf = PInf"
| "xmul MInf MInf = PInf"
| "xmul PInf MInf = MInf"
| "xmul MInf PInf = MInf"

definition xsub :: "xreal \<Rightarrow> xreal \<Rightarrow> xreal" where
  "xsub v w = xadd v (xneg w)"

text \<open>
  \<^verbatim>\<open>u / d\<close> for a numpy float \<open>u\<close> and a Python float \<open>d\<close> that is not negative zero (the
  only divisor of this kind in the source is a quotient and product of array sizes).
\<close>

definition xquot :: "real \<Rightarrow> real \<Rightarrow> xreal" where
  "xquot u d = (if d = 0 then signed_inf u else Fin (u / d))"

text \<open>\<^verbatim>\<open>np.mean\<close> of a vector; on an empty vector it warns and gives \<^verbatim>\<open>nan\<close>.\<close>

definition xmean :: "xreal list \<Rightarrow> xreal" where
  "xmean v =
     (if v = [] then NaN
      else case foldr xadd v (Fin 0) of
             Fin s \<Rightarrow> Fin (s / real (length v))
           | w \<Rightarrow> w)"

section \<open>The detector's result and the images\<close>

type_synonym point = "real \<times> real"

text \<open>A point after rescaling: only its x-coordinate can have met the division by zero.\<close>

type_synonym xpoint = "xreal \<times> real"

text \<open>
  \<^verbatim>\<open>pose['bodies']\<close>: \<open>candidate\<close> is the \<^verbatim>\<open>[K, 2]\<close> array of body points (18 rows per
  detected person), \<open>score\<close> the \<^verbatim>\<open>[P, 18]\<close> array of confidences, one row per person.
  The detector is taken to return finite coordinates.
\<close>

record 'p body_result =
  candidate :: "'p list"
  score :: "real list list"

record 'p pose =
  bodies :: "'p body_result"
  hands :: "'p list list"
  faces :: "'p list list"

text \<open>An image as the extractor uses it: its shape and the pixels the detector reads.\<close>

record 'px image =
  img_height :: nat
  img_width :: nat
  pixels :: 'px

section \<open>The numpy operations that \<^verbatim>\<open>MimicMotionGetPoses.process\<close> calls\<close>

text \<open>\<^verbatim>\<open>arr[ids]\<close> with a list of row indices: IndexError when one is out of range.\<close>

definition np_take :: "'a list \<Rightarrow> nat list \<Rightarrow> failure + 'a list" where
  "np_take arr ids =
     (if list_all (\<lambda>i. i < length arr) ids then Inr (map (\<lambda>i. arr ! i) ids)
      else Inl (Propagated IndexError))"

text \<open>
  \<^verbatim>\<open>np.stack(arrs)[:, ids]\<close> for arrays of 18 rows each: \<^verbatim>\<open>np.stack\<close> raises ValueError on
  an empty list, the indexing along the axis of size 18 raises IndexError out of range.
\<close>

definition np_stack_take :: "'a list list \<Rightarrow> nat list \<Rightarrow> failure + 'a list list" where
  "np_stack_take arrs ids =
     (if arrs = [] then Inl (Propagated ValueError)
      else if list_all (\<lambda>i. i < 18) ids then Inr (map (\<lambda>c. map (\<lambda>i. c ! i) ids) arrs)
      else Inl (Propagated IndexError))"

text \<open>\<^verbatim>\<open>np.tile(v, n)\<close> on a vector: \<open>n\<close> copies of \<open>v\<close>, one after the other.\<close>

definition np_tile :: "'a list \<Rightarrow> nat \<Rightarrow> 'a list" where
  "np_tile v n = concat (replicate n v)"

text \<open>
  \<^verbatim>\<open>np.polyfit(x, y, 1)\<close>, from numpy's definition of it, in exact arithmetic: TypeError on
  an empty \<open>x\<close> and on vectors of different length; otherwise the columns \<open>x\<close> and \<open>1\<close> of
  the design matrix are divided by their Euclidean norms and \<^verbatim>\<open>lstsq\<close> returns the
  least-squares solution of minimal norm, which is scaled back. If \<open>x\<close> is all zero its
  column becomes \<open>0/0\<close> and \<^verbatim>\<open>lstsq\<close> raises LinAlgError. If the matrix has full rank the
  solution is the one of the normal equations. If all entries of \<open>x\<close> are one nonzero
  number \<open>x0\<close> (rank one), the minimal-norm solution in the scaled coordinates is
  \<open>(mean y / (2 * x0), mean y / 2)\<close> after scaling back. The rounding of the float64
  computation is not modelled.
\<close>

definition polyfit1 :: "real list \<Rightarrow> real list \<Rightarrow> failure + (real \<times> real)" where
  "polyfit1 x y =
     (if x = [] then Inl (Propagated TypeError)
      else if length x \<noteq> length y then Inl (Propagated TypeError)
      else
        let n = real (length x);
            sx = sum_list x;
            sy = sum_list y;
            sxx = sum_list (map (\<lambda>u. u * u) x);
            sxy = sum_list (map2 (\<lambda>u v. u * v) x y);
            det = n * sxx - sx * sx
        in if sxx = 0 then Inl (Propagated LinAlgError)
           else if det = 0 then Inr (sy / (2 * sx), sy / (2 * n))
           else Inr ((n * sxy - sx * sy) / det, (sy * sxx - sx * sxy) / det))"

section \<open>\<^verbatim>\<open>MimicMotionGetPoses.process\<close>\<close>

definition ref_keypoint_id0 :: "nat list" where
  "ref_keypoint_id0 = [0, 1, 2, 5, 8, 11, 14, 15, 16, 17]"

text \<open>
  The condition of the list comprehension at one index \<open>i\<close>:
  \<^verbatim>\<open>score.shape[0] > 0 and score[0][i] > 0.3\<close>. The \<^verbatim>\<open>and\<close> does not evaluate its second
  operand when there is no row.
\<close>

definition keep_id :: "real list list \<Rightarrow> nat \<Rightarrow> failure + bool" where
  "keep_id sc i =
     (case sc of
        [] \<Rightarrow> Inr False
      | row # _ \<Rightarrow> if i < length row then Inr (3 / 10 < row ! i) else Inl (Propagated IndexError))"

fun select_keypoint_id :: "real list list \<Rightarrow> nat list \<Rightarrow> failure + nat list" where
  "select_keypoint_id sc [] = Inr []"
| "select_keypoint_id sc (i # is) =
     (case keep_id sc i of
        Inl e \<Rightarrow> Inl e
      | Inr k \<Rightarrow>
          (case select_keypoint_id sc is of
             Inl e \<Rightarrow> Inl e
           | Inr r \<Rightarrow> Inr (if k then i # r else r)))"

text \<open>
  \<^verbatim>\<open>fh / fw / height * width\<close> on Python integers: each \<^verbatim>\<open>/\<close> is a true division and
  raises ZeroDivisionError on a zero divisor. The result is zero when \<open>fh\<close> or \<open>width\<close>
  is.
\<close>

definition aspect :: "nat \<Rightarrow> nat \<Rightarrow> nat \<Rightarrow> nat \<Rightarrow> failure + real" where
  "aspect fh fw height width =
     (if fw = 0 then Inl (Propagated ZeroDivisionError)
      else if height = 0 then Inl (Propagated ZeroDivisionError)
      else Inr (real fh / real fw / real height * real width))"

text \<open>\<^verbatim>\<open>pts * a + b\<close> with \<open>a = [ax, ay]\<close> and \<open>b = [bx, by]\<close>, broadcast over the points.\<close>

definition affine :: "xpoint \<Rightarrow> xpoint \<Rightarrow> point \<Rightarrow> xpoint" where
  "affine a b p = (xadd (xmul (Fin (fst p)) (fst a)) (fst b), snd p * snd a + snd b)"

text \<open>A function applied to every body, hand and face point of a pose.\<close>

definition map_pose :: "('p \<Rightarrow> 'q) \<Rightarrow> 'p pose \<Rightarrow> 'q pose" where
  "map_pose f p =
     \<lparr>bodies = \<lparr>candidate = map f (candidate (bodies p)), score = score (bodies p)\<rparr>,
      hands = map (map f) (hands p),
      faces = map (map f) (faces p)\<rparr>"

text \<open>Lines 266 to 268: the three assignments of the rescaling loop.\<close>

definition rescale :: "xpoint \<Rightarrow> xpoint \<Rightarrow> point pose \<Rightarrow> xpoint pose" where
  "rescale a b p = map_pose (affine a b) p"

text \<open>A pose that was not rescaled, as the renderer receives it.\<close>

definition finite_pose :: "point pose \<Rightarrow> xpoint pose" where
  "finite_pose p = map_pose (\<lambda>q. (Fin (fst q), snd q)) p"

text \<open>
  The local variables of \<^verbatim>\<open>process\<close> when it returns; \<open>output_tensor\<close> is the value
  it returns, the sequence of rendered pose images.
\<close>

record 'im extraction =
  ref_keypoint_id :: "nat list"
  ref_body :: "point list"
  detected_bodies :: "point list list"
  a :: xpoint
  b :: xpoint
  output_pose :: "xpoint pose list"
  output_tensor :: "'im list"

text \<open>
  The detector \<open>dwprocessor\<close> and the renderer \<open>draw_pose\<close> are the two opaque callables
  of the source; they are parameters. The reference image is the single image left by
  \<^verbatim>\<open>ref_image.squeeze(0)\<close>.
\<close>

definition process ::
  "('px image \<Rightarrow> point pose) \<Rightarrow> (xpoint pose \<Rightarrow> nat \<Rightarrow> nat \<Rightarrow> bool \<Rightarrow> bool \<Rightarrow> bool \<Rightarrow> 'im) \<Rightarrow>
   'px image \<Rightarrow> 'px image list \<Rightarrow> bool \<Rightarrow> bool \<Rightarrow> bool \<Rightarrow> failure + 'im extraction" where
  "process dwprocessor draw_pose ref_image pose_images include_body include_hand include_face =
     (let ref_pose = dwprocessor ref_image in
      case select_keypoint_id (score (bodies ref_pose)) ref_keypoint_id0 of
        Inl e \<Rightarrow> Inl e
      | Inr ids \<Rightarrow>
      (case np_take (candidate (bodies ref_pose)) ids of
        Inl e \<Rightarrow> Inl e
      | Inr rbody \<Rightarrow>
      (let height = img_height ref_image;
           width = img_width ref_image;
           detected_poses = map dwprocessor pose_images
       in
       case np_stack_take
              (map (\<lambda>p. candidate (bodies p))
                 (filter (\<lambda>p. length (candidate (bodies p)) = 18) detected_poses)) ids of
         Inl e \<Rightarrow> Inl e
       | Inr dbodies \<Rightarrow>
       (case polyfit1 (concat (map (map snd) dbodies))
                      (np_tile (map snd rbody) (length dbodies)) of
          Inl e \<Rightarrow> Inl e
        | Inr (ay, by) \<Rightarrow>
        (case pose_images of
           [] \<Rightarrow> Inl (Propagated IndexError)
         | f0 # _ \<Rightarrow>
         (case aspect (img_height f0) (img_width f0) height width of
            Inl e \<Rightarrow> Inl e
          | Inr d \<Rightarrow>
            (let ax = xquot ay d;
                 bx = xmean (map2 (\<lambda>r x. xsub (Fin r) (xmul (Fin x) ax))
                               (np_tile (map fst rbody) (length dbodies))
                               (concat (map (map fst) dbodies)));
                 poses = map (rescale (ax, ay) (bx, by)) detected_poses;
                 ims = map (\<lambda>p. draw_pose p height width include_body include_hand include_face)
                         poses
             in if ims = [] then Inl (Propagated RuntimeError)
                else Inr \<lparr>ref_keypoint_id = ids, ref_body = rbody,
                          detected_bodies = dbodies, a = (ax, ay), b = (bx, by),
                          output_pose = poses,
                          output_tensor =
                            draw_pose (finite_pose ref_pose) height width
                              include_body include_hand include_face # ims\<rparr>)))))))"

section \<open>Least squares\<close>


text \<open>
  The shape of a detector result: 18 candidate rows and one score row of 18 entries for
  each detected person.
\<close>

definition well_formed :: "'p pose \<Rightarrow> bool" where
  "well_formed p \<longleftrightarrow>
     length (candidate (bodies p)) = 18 * length (score (bodies p))
     \<and> list_all (\<lambda>row. length row = 18) (score (bodies p))"

section \<open>\<^verbatim>\<open>MimicMotionSampler.process\<close>\<close>

text \<open>
  A torch tensor: its shape and its entry at each index (a list with one position per
  dimension). Entries are reals; what a dtype can represent is given by the conversion
  \<open>cast\<close> below.
\<close>

record tensor =
  shape :: "nat list"
  entry :: "nat list \<Rightarrow> real"







datatype torch_dtype = Bfloat16 | Float16 | Float32

text \<open>
  What is used of a conversion to a dtype: it is monotone and keeps the numbers
  \<open>-1\<close>, \<open>0\<close>, \<open>1\<close> and \<open>2\<close>, which every binary floating-point format represents.
\<close>

definition rounding :: "(real \<Rightarrow> real) \<Rightarrow> bool" where
  "rounding rnd \<longleftrightarrow>
     (\<forall>u v. u \<le> v \<longrightarrow> rnd u \<le> rnd v)
     \<and> rnd (- 1) = - 1 \<and> rnd 0 = 0 \<and> rnd 1 = 1 \<and> rnd 2 = 2"

text \<open>
  The keyword arguments of the call \<^verbatim>\<open>pipeline(ref_image, image_pose=..., ...)\<close>; the
  generator is given by its seed. The pipeline itself is opaque: a parameter that maps
  the arguments to the tensor \<^verbatim>\<open>.frames\<close>.
\<close>

record pipeline_call =
  image :: tensor
  image_pose :: tensor
  num_frames :: nat
  tile_size :: nat
  tile_overlap :: nat
  height :: nat
  width :: nat
  fps :: nat
  noise_aug_strength :: real
  num_inference_steps :: nat
  generator_seed :: nat
  min_guidance_scale :: real
  max_guidance_scale :: real
  decode_chunk_size :: nat
  output_type :: string



section \<open>\<^verbatim>\<open>DownloadAndLoadMimicMotionModel.loadmodel\<close>\<close>

text \<open>
  The loader reads and changes the file system. The state is the set of existing paths
  together with a trace of the effects performed: the downloads, the construction of the
  base model from the stable-video-diffusion directory and the loading of the checkpoint.
  \<^verbatim>\<open>snapshot_download\<close> is opaque: a parameter that fails or returns the new set of
  paths. The construction of the pipeline object is the parameter \<open>build\<close>.
\<close>

text \<open>The dictionary of line 79; a precision outside it is a KeyError.\<close>

definition dtype_of :: "string \<Rightarrow> torch_dtype option" where
  "dtype_of = map_of [(''bf16'', Bfloat16), (''fp16'', Float16), (''fp32'', Float32)]"

text \<open>\<^verbatim>\<open>os.path.join\<close> of two components on POSIX.\<close>

definition path_join :: "string \<Rightarrow> string \<Rightarrow> string" where
  "path_join p q =
     (if q \<noteq> [] \<and> hd q = CHR ''/'' then q
      else if p = [] \<or> last p = CHR ''/'' then p @ q
      else p @ ''/'' @ q)"

datatype action =
    Snapshot_download string "string list" string
  | Construct_base_model string
  | Load_torch_file string

record world =
  existing :: "string set"
  trace :: "action list"

record 'p mimic_model =
  pipeline_of :: 'p
  dtype :: torch_dtype

text \<open>Lines 84 to 90: the checkpoint file is fetched when it does not exist.\<close>

definition ensure_checkpoint ::
  "(string \<Rightarrow> string list \<Rightarrow> string \<Rightarrow> string set \<Rightarrow> failure + string set) \<Rightarrow>
   string \<Rightarrow> string \<Rightarrow> world \<Rightarrow> failure option \<times> world" where
  "ensure_checkpoint snapshot_download download_path model w =
     (if path_join download_path model \<notin> existing w
      then (let w1 = w\<lparr>trace := trace w @
                  [Snapshot_download ''Kijai/MimicMotion_pruned''
                     [''*'' @ model @ ''*''] download_path]\<rparr>
            in case snapshot_download ''Kijai/MimicMotion_pruned''
                      [''*'' @ model @ ''*''] download_path (existing w) of
                 Inl e \<Rightarrow> (Some e, w1)
               | Inr fs \<Rightarrow> (None, w1\<lparr>existing := fs\<rparr>))
      else (None, w))"

text \<open>
  \<^verbatim>\<open>loadmodel\<close>: the precision lookup, the checkpoint, the guard of lines 95 to 98 with
  its \<^verbatim>\<open>raise ValueError\<close>, then the construction.
\<close>

definition loadmodel ::
  "(string \<Rightarrow> string list \<Rightarrow> string \<Rightarrow> string set \<Rightarrow> failure + string set) \<Rightarrow>
   (string \<Rightarrow> string \<Rightarrow> torch_dtype \<Rightarrow> 'p) \<Rightarrow> string \<Rightarrow> string \<Rightarrow> string \<Rightarrow> world \<Rightarrow>
   (failure + 'p mimic_model) \<times> world" where
  "loadmodel snapshot_download build models_dir precision model w =
     (case dtype_of precision of
        None \<Rightarrow> (Inl (Propagated KeyError), w)
      | Some dt \<Rightarrow>
        (let download_path = path_join models_dir ''mimicmotion'';
             model_path = path_join download_path model
         in case ensure_checkpoint snapshot_download download_path model w of
              (Some e, w1) \<Rightarrow> (Inl e, w1)
            | (None, w1) \<Rightarrow>
              (let svd_path = path_join (path_join models_dir ''diffusers'')
                                ''stable-video-diffusion-img2vid-xt-1-1''
               in if svd_path \<notin> existing w1 then (Inl (Raised ValueError), w1)
                  else (Inr \<lparr>pipeline_of = build svd_path model_path dt, dtype = dt\<rparr>,
                        w1\<lparr>trace := trace w1 @
                             [Construct_base_model svd_path, Load_torch_file model_path]\<rparr>))))"

section \<open>Example data\<close>

definition ex_ref_pose :: "point pose" where
  "ex_ref_pose = \<lparr>bodies = \<lparr>candidate = [(25, 100), (45, 150), (65, 200)] @ replicate 15 (0, 0),
                             score = [[1, 1, 1] @ replicate 15 0]\<rparr>,
                  hands = [[(1, 1)]], faces = [[(2, 2)]]\<rparr>"

definition ex_pose :: "point pose" where
  "ex_pose = \<lparr>bodies = \<lparr>candidate = [(10, 50), (20, 75), (30, 100)] @ replicate 15 (0, 0),
                             score = [[1, 1, 1] @ replicate 15 0]\<rparr>,
                  hands = [[(1, 1)]], faces = [[(2, 2)]]\<rparr>"

definition ex_pose_a :: "point pose" where
  "ex_pose_a = \<lparr>bodies = \<lparr>candidate = [(10, 40), (20, 75), (30, 110)] @ replicate 15 (0, 0),
                             score = [[1, 1, 1] @ replicate 15 0]\<rparr>,
                  hands = [], faces = []\<rparr>"

definition ex_pose_b :: "point pose" where
  "ex_pose_b = \<lparr>bodies = \<lparr>candidate = [(12, 60), (20, 75), (28, 90)] @ replicate 15 (0, 0),
                             score = [[1, 1, 1] @ replicate 15 0]\<rparr>,
                  hands = [], faces = []\<rparr>"

definition ex_partial :: "point pose" where
  "ex_partial = \<lparr>bodies = \<lparr>candidate = [], score = []\<rparr>, hands = [], faces = [[(3, 4)]]\<rparr>"

definition ex_image :: "point pose \<Rightarrow> point pose image" where
  "ex_image p = \<lparr>img_height = 4, img_width = 2, pixels = p\<rparr>"

definition ex_sized :: "nat \<Rightarrow> nat \<Rightarrow> point pose \<Rightarrow> point pose image" where
  "ex_sized h w p = \<lparr>img_height = h, img_width = w, pixels = p\<rparr>"

definition ex_draw :: "xpoint pose \<Rightarrow> nat \<Rightarrow> nat \<Rightarrow> bool \<Rightarrow> bool \<Rightarrow> bool \<Rightarrow> xpoint list" where
  "ex_draw p h w include_body include_hand include_face =
     (if include_body then candidate (bodies p) else [])
     @ (if include_hand then concat (hands p) else [])
     @ (if include_face then concat (faces p) else [])"


definition ex_cast :: "torch_dtype \<Rightarrow> real \<Rightarrow> real" where
  "ex_cast dt v = (case dt of Float32 \<Rightarrow> v | _ \<Rightarrow> real_of_int (round (v * 8)) / 8)"



definition ex_fetch :: "string \<Rightarrow> string list \<Rightarrow> string \<Rightarrow> string set \<Rightarrow> failure + string set" where
  "ex_fetch repo patterns local_dir fs =
     Inr (fs \<union> {path_join local_dir ''MimicMotion-fp16.safetensors''})"

definition ex_fetch_offline ::
  "string \<Rightarrow> string list \<Rightarrow> string \<Rightarrow> string set \<Rightarrow> failure + string set" where
  "ex_fetch_offline repo patterns local_dir fs = Inl (Propagated OSError)"

definition ex_build :: "string \<Rightarrow> string \<Rightarrow> torch_dtype \<Rightarrow> string \<times> string \<times> torch_dtype" where
  "ex_build svd ckpt dt = (svd, ckpt, dt)"

section \<open>Properties of the numpy operations\<close>















lemma select_no_rows: "select_keypoint_id [] ids = Inr []"
  by (induction ids) (simp_all add: keep_id_def)

lemma select_Inr:
  "select_keypoint_id sc ids = Inr r \<Longrightarrow>
     r = filter (\<lambda>i. case sc of [] \<Rightarrow> False | row # _ \<Rightarrow> 3 / 10 < row ! i) ids
     \<and> (\<forall>row rest. sc = row # rest \<longrightarrow> list_all (\<lambda>i. i < length row) ids)"
  by (induction ids arbitrary: r)
     (auto simp: keep_id_def split: sum.splits list.splits if_splits)

lemma process_Inr:
  assumes "process dw dr ref frames ib ih ifc = Inr r"
  shows "\<exists>ids rbody dbodies ay by f0 fs d.
      select_keypoint_id (score (bodies (dw ref))) ref_keypoint_id0 = Inr ids
    \<and> np_take (candidate (bodies (dw ref))) ids = Inr rbody
    \<and> np_stack_take (map (\<lambda>p. candidate (bodies p))
          (filter (\<lambda>p. length (candidate (bodies p)) = 18) (map dw frames))) ids = Inr dbodies
    \<and> polyfit1 (concat (map (map snd) dbodies)) (np_tile (map snd rbody) (length dbodies)) = Inr (ay, by)
    \<and> frames = f0 # fs
    \<and> aspect (img_height f0) (img_width f0) (img_height ref) (img_width ref) = Inr d
    \<and> ref_keypoint_id r = ids \<and> ref_body r = rbody \<and> detected_bodies r = dbodies
    \<and> a r = (xquot ay d, ay)
    \<and> b r = (xmean (map2 (\<lambda>r x. xsub (Fin r) (xmul (Fin x) (xquot ay d)))
                       (np_tile (map fst rbody) (length dbodies))
                       (concat (map (map fst) dbodies))), by)
    \<and> output_pose r = map (rescale (a r) (b r)) (map dw frames)
    \<and> output_tensor r = dr (finite_pose (dw ref)) (img_height ref) (img_width ref) ib ih ifc #
               map (\<lambda>p. dr p (img_height ref) (img_width ref) ib ih ifc) (output_pose r)"
  using assms unfolding process_def Let_def
  by (auto split: sum.splits list.splits prod.splits if_splits)

lemmas ex_defs =
  process_def Let_def ex_image_def ex_sized_def ex_ref_pose_def ex_pose_def ex_pose_a_def
  ex_pose_b_def ex_partial_def ref_keypoint_id0_def keep_id_def np_take_def np_stack_take_def
  polyfit1_def np_tile_def aspect_def xquot_def xmean_def xsub_def signed_inf_def nth_append

lemma ex_run_simp:
  "process pixels ex_draw (ex_image ex_ref_pose) [ex_image ex_pose, ex_image ex_partial] True False True =
     Inr \<lparr>ref_keypoint_id = [0, 1, 2],
          ref_body = [(25, 100), (45, 150), (65, 200)],
          detected_bodies = [[(10, 50), (20, 75), (30, 100)]],
          a = (Fin 2, 2), b = (Fin 5, 0),
          output_pose = [rescale (Fin 2, 2) (Fin 5, 0) ex_pose,
                         rescale (Fin 2, 2) (Fin 5, 0) ex_partial],
          output_tensor = [ex_draw (finite_pose ex_ref_pose) 4 2 True False True,
                           ex_draw (rescale (Fin 2, 2) (Fin 5, 0) ex_pose) 4 2 True False True,
                           ex_draw (rescale (Fin 2, 2) (Fin 5, 0) ex_partial) 4 2 True False True]\<rparr>"
  by (simp add: ex_defs)

lemma ex_run_two:
  "process pixels ex_draw (ex_sized 8 2 ex_ref_pose)
     [ex_sized 4 2 ex_pose_a, ex_sized 4 2 ex_partial, ex_sized 4 2 ex_pose_b] True True True =
     Inr \<lparr>ref_keypoint_id = [0, 1, 2],
          ref_body = [(25, 100), (45, 150), (65, 200)],
          detected_bodies = [[(10, 40), (20, 75), (30, 110)], [(12, 60), (20, 75), (28, 90)]],
          a = (Fin (100 / 29), 50 / 29), b = (Fin (- 695 / 29), 600 / 29),
          output_pose = [rescale (Fin (100 / 29), 50 / 29) (Fin (- 695 / 29), 600 / 29) ex_pose_a,
                         rescale (Fin (100 / 29), 50 / 29) (Fin (- 695 / 29), 600 / 29) ex_partial,
                         rescale (Fin (100 / 29), 50 / 29) (Fin (- 695 / 29), 600 / 29) ex_pose_b],
          output_tensor =
            [ex_draw (finite_pose ex_ref_pose) 8 2 True True True,
             ex_draw (rescale (Fin (100 / 29), 50 / 29) (Fin (- 695 / 29), 600 / 29) ex_pose_a)
               8 2 True True True,
             ex_draw (rescale (Fin (100 / 29), 50 / 29) (Fin (- 695 / 29), 600 / 29) ex_partial)
               8 2 True True True,
             ex_draw (rescale (Fin (100 / 29), 50 / 29) (Fin (- 695 / 29), 600 / 29) ex_pose_b)
               8 2 True True True]\<rparr>"
  by (simp add: ex_defs)

lemma ex_run_zero_width:
  "process pixels ex_draw (ex_sized 8 0 ex_ref_pose) [ex_sized 4 2 ex_pose] True True True =
     Inr \<lparr>ref_keypoint_id = [0, 1, 2],
          ref_body = [(25, 100), (45, 150), (65, 200)],
          detected_bodies = [[(10, 50), (20, 75), (30, 100)]],
          a = (PInf, 2), b = (MInf, 0),
          output_pose = [rescale (PInf, 2) (MInf, 0) ex_pose],
          output_tensor = [ex_draw (finite_pose ex_ref_pose) 8 0 True True True,
                           ex_draw (rescale (PInf, 2) (MInf, 0) ex_pose) 8 0 True True True]\<rparr>"
  by (simp add: ex_defs)

lemma ex_run_empty:
  "process pixels ex_draw (ex_image ex_ref_pose) [] True True True = Inl (Propagated ValueError)"
  by (simp add: ex_defs)

lemma well_formed_select:
  assumes "well_formed p"
  shows "\<exists>ids. select_keypoint_id (score (bodies p)) ref_keypoint_id0 = Inr ids
           \<and> (\<exists>rb. np_take (candidate (bodies p)) ids = Inr rb)"
proof (cases "score (bodies p)")
  case Nil
  then show ?thesis by (simp add: select_no_rows np_take_def)
next
  case (Cons row rest)
  with assms have r: "length row = 18" and c: "18 \<le> length (candidate (bodies p))"
    by (simp_all add: well_formed_def)
  have k: "\<And>i. i < 18 \<Longrightarrow> keep_id (row # rest) i = Inr (3 / 10 < row ! i)"
    using r by (simp add: keep_id_def)
  obtain ids where s: "select_keypoint_id (row # rest) ref_keypoint_id0 = Inr ids"
    by (simp add: ref_keypoint_id0_def k)
  from select_Inr [OF s] have "set ids \<subseteq> set ref_keypoint_id0" by auto
  then have "list_all (\<lambda>i. i < length (candidate (bodies p))) ids"
    using c by (auto simp: ref_keypoint_id0_def list_all_iff)
  then show ?thesis using s Cons by (simp add: np_take_def)
qed

section \<open>The pose extractor\<close>

text \<open>
  Claim C10. When the detector reports no body on the reference image (the score array
  has no row), the selection of the reference keypoints does not raise: the guard
  \<^verbatim>\<open>score.shape[0] > 0\<close> answers every index without reading the array, the index set
  and the selected reference landmarks are empty, and the extraction goes on. It then
  stops at \<^verbatim>\<open>np.stack\<close> when no driving frame is complete, and otherwise inside
  \<^verbatim>\<open>np.polyfit\<close>, which rejects the empty vectors: the failure comes from the fitting
  stage, not from the selection.
\<close>

theorem zero_reference_bodies_reach_fit:
  assumes "score (bodies (dwprocessor ref_image)) = []"
  shows "select_keypoint_id (score (bodies (dwprocessor ref_image))) ref_keypoint_id0 = Inr []
       \<and> np_take (candidate (bodies (dwprocessor ref_image))) [] = Inr []
       \<and> process dwprocessor draw_pose ref_image pose_images include_body include_hand include_face =
           (if filter (\<lambda>p. length (candidate (bodies p)) = 18) (map dwprocessor pose_images) = []
            then Inl (Propagated ValueError) else Inl (Propagated TypeError))"
  using assms
  by (simp add: process_def Let_def select_no_rows np_take_def np_stack_take_def polyfit1_def)

theorem zero_reference_bodies_reach_fit_witness:
  "process pixels ex_draw (ex_image ex_partial) [ex_image ex_pose] True True True
     = Inl (Propagated TypeError)
   \<and> select_keypoint_id (score (bodies (pixels (ex_image ex_partial)))) ref_keypoint_id0 = Inr []"
  using zero_reference_bodies_reach_fit [of pixels "ex_image ex_partial" ex_draw "[ex_image ex_pose]" True True True]
  by (simp add: ex_image_def ex_partial_def ex_pose_def)







text \<open>
  Claim C4 says that the output has \<open>1 + N\<close> images for every driving sequence of length
  \<open>N\<close>, however many frames were left out of the fit. On two driving frames without a
  body, both left out, the run ends in the ValueError of \<^verbatim>\<open>np.stack\<close> and there is no
  output at all.
\<close>

theorem all_frames_excluded_counterexample:
  "process pixels ex_draw (ex_image ex_ref_pose) [ex_image ex_partial, ex_image ex_partial]
     True True True = Inl (Propagated ValueError)"
  by (simp add: ex_defs)

text \<open>
  Claim C4, amended. Whenever \<^verbatim>\<open>process\<close> returns on \<open>N\<close> driving frames, which needs a
  driving frame with a body detection of 18 rows, the output holds \<open>1 + N\<close> images: first
  the rendering of the reference pose as the detector gave it, then, in input order, the
  rendering of every driving frame's pose after the map
  \<open>(x, y) \<mapsto> (x * ax + bx, y * ay + by)\<close> has been applied to its body, hand and face
  points. This covers the frames that were left out of the fit.
\<close>

theorem every_frame_reprojected:
  assumes "process dwprocessor draw_pose ref_image pose_images include_body include_hand include_face = Inr r"
  shows "filter (\<lambda>p. length (candidate (bodies p)) = 18) (map dwprocessor pose_images) \<noteq> []
       \<and> length (output_tensor r) = 1 + length pose_images
       \<and> output_tensor r ! 0 =
           draw_pose (finite_pose (dwprocessor ref_image)) (img_height ref_image) (img_width ref_image)
             include_body include_hand include_face
       \<and> candidate (bodies (finite_pose (dwprocessor ref_image)))
           = map (\<lambda>(x, y). (Fin x, y)) (candidate (bodies (dwprocessor ref_image)))
       \<and> hands (finite_pose (dwprocessor ref_image))
           = map (map (\<lambda>(x, y). (Fin x, y))) (hands (dwprocessor ref_image))
       \<and> faces (finite_pose (dwprocessor ref_image))
           = map (map (\<lambda>(x, y). (Fin x, y))) (faces (dwprocessor ref_image))
       \<and> length (output_pose r) = length pose_images
       \<and> (\<forall>k < length pose_images.
            candidate (bodies (output_pose r ! k)) =
              map (\<lambda>(x, y). (xadd (xmul (Fin x) (fst (a r))) (fst (b r)), y * snd (a r) + snd (b r)))
                (candidate (bodies (dwprocessor (pose_images ! k))))
          \<and> hands (output_pose r ! k) =
              map (map (\<lambda>(x, y). (xadd (xmul (Fin x) (fst (a r))) (fst (b r)), y * snd (a r) + snd (b r))))
                (hands (dwprocessor (pose_images ! k)))
          \<and> faces (output_pose r ! k) =
              map (map (\<lambda>(x, y). (xadd (xmul (Fin x) (fst (a r))) (fst (b r)), y * snd (a r) + snd (b r))))
                (faces (dwprocessor (pose_images ! k)))
          \<and> output_tensor r ! (1 + k) =
              draw_pose (output_pose r ! k) (img_height ref_image) (img_width ref_image)
                include_body include_hand include_face)"
proof -
  from process_Inr [OF assms] obtain ids dbodies where
    st: "np_stack_take (map (\<lambda>p. candidate (bodies p))
          (filter (\<lambda>p. length (candidate (bodies p)) = 18) (map dwprocessor pose_images))) ids = Inr dbodies"
    and op: "output_pose r = map (rescale (a r) (b r)) (map dwprocessor pose_images)"
    and ot: "output_tensor r =
          draw_pose (finite_pose (dwprocessor ref_image)) (img_height ref_image) (img_width ref_image)
            include_body include_hand include_face #
          map (\<lambda>p. draw_pose p (img_height ref_image) (img_width ref_image)
                 include_body include_hand include_face) (output_pose r)"
    by blast
  have ne: "filter (\<lambda>p. length (candidate (bodies p)) = 18) (map dwprocessor pose_images) \<noteq> []"
    using st by (auto simp: np_stack_take_def split: if_splits)
  have aff: "affine (a r) (b r) =
      (\<lambda>(x, y). (xadd (xmul (Fin x) (fst (a r))) (fst (b r)), y * snd (a r) + snd (b r)))"
    by (auto simp: affine_def fun_eq_iff)
  have fp: "(\<lambda>q. (Fin (fst q), snd q)) = (\<lambda>(x, y). (Fin x, y))"
    by (auto simp: fun_eq_iff)
  have 1: "length (output_tensor r) = 1 + length pose_images"
    and 2: "output_tensor r ! 0 =
           draw_pose (finite_pose (dwprocessor ref_image)) (img_height ref_image) (img_width ref_image)
             include_body include_hand include_face"
    and 3: "length (output_pose r) = length pose_images"
    by (simp_all add: ot op)
  have 4: "candidate (bodies (finite_pose p)) = map (\<lambda>(x, y). (Fin x, y)) (candidate (bodies p))
      \<and> hands (finite_pose p) = map (map (\<lambda>(x, y). (Fin x, y))) (hands p)
      \<and> faces (finite_pose p) = map (map (\<lambda>(x, y). (Fin x, y))) (faces p)" for p :: "point pose"
    by (simp add: finite_pose_def map_pose_def fp)
  have 5: "candidate (bodies (output_pose r ! k)) =
              map (\<lambda>(x, y). (xadd (xmul (Fin x) (fst (a r))) (fst (b r)), y * snd (a r) + snd (b r)))
                (candidate (bodies (dwprocessor (pose_images ! k))))
          \<and> hands (output_pose r ! k) =
              map (map (\<lambda>(x, y). (xadd (xmul (Fin x) (fst (a r))) (fst (b r)), y * snd (a r) + snd (b r))))
                (hands (dwprocessor (pose_images ! k)))
          \<and> faces (output_pose r ! k) =
              map (map (\<lambda>(x, y). (xadd (xmul (Fin x) (fst (a r))) (fst (b r)), y * snd (a r) + snd (b r))))
                (faces (dwprocessor (pose_images ! k)))
          \<and> output_tensor r ! (1 + k) =
              draw_pose (output_pose r ! k) (img_height ref_image) (img_width ref_image)
                include_body include_hand include_face" if "k < length pose_images" for k
    using that 3 by (simp add: ot) (simp add: op rescale_def map_pose_def aff)
  from ne 1 2 3 4 5 show ?thesis by blast
qed

theorem every_frame_reprojected_witness:
  "length [ex_draw (finite_pose ex_ref_pose) 8 2 True True True,
           ex_draw (rescale (Fin (100 / 29), 50 / 29) (Fin (- 695 / 29), 600 / 29) ex_pose_a)
               8 2 True True True,
           ex_draw (rescale (Fin (100 / 29), 50 / 29) (Fin (- 695 / 29), 600 / 29) ex_partial)
               8 2 True True True,
           ex_draw (rescale (Fin (100 / 29), 50 / 29) (Fin (- 695 / 29), 600 / 29) ex_pose_b)
               8 2 True True True]
     = 1 + length [ex_sized 4 2 ex_pose_a, ex_sized 4 2 ex_partial, ex_sized 4 2 ex_pose_b]
   \<and> faces (rescale (Fin (100 / 29), 50 / 29) (Fin (- 695 / 29), 600 / 29) ex_partial)
     = [[(Fin (- 395 / 29), 800 / 29)]]
   \<and> length [ex_draw (finite_pose ex_ref_pose) 8 0 True True True,
             ex_draw (rescale (PInf, 2) (MInf, 0) ex_pose) 8 0 True True True]
     = 1 + length [ex_sized 4 2 ex_pose]"
  using every_frame_reprojected [OF ex_run_two] every_frame_reprojected [OF ex_run_zero_width]
  by (simp add: ex_sized_def ex_partial_def rescale_def map_pose_def affine_def)

text \<open>
  Claim C9. Two runs on the same reference image and driving frames that differ only in
  \<open>include_body\<close>, \<open>include_hand\<close>, \<open>include_face\<close> (and even in the renderer) either
  fail in the same way or compute the same index set, the same reference and driving
  landmarks, the same \<open>(ax, ay)\<close> and \<open>(bx, by)\<close> and the same rescaled poses.
\<close>

theorem flags_do_not_reach_alignment:
  "map_sum id (\<lambda>r. (ref_keypoint_id r, ref_body r, detected_bodies r, a r, b r, output_pose r))
     (process dwprocessor draw_pose ref_image pose_images include_body include_hand include_face)
   = map_sum id (\<lambda>r. (ref_keypoint_id r, ref_body r, detected_bodies r, a r, b r, output_pose r))
     (process dwprocessor draw_pose' ref_image pose_images include_body' include_hand' include_face')"
  unfolding process_def Let_def
  by (simp split: sum.splits list.splits prod.splits)

theorem flags_do_not_reach_alignment_witness:
  "map_sum id (\<lambda>r. (ref_keypoint_id r, ref_body r, detected_bodies r, a r, b r, output_pose r))
     (process pixels ex_draw (ex_image ex_ref_pose) [ex_image ex_pose, ex_image ex_partial] False True False)
   = Inr ([0, 1, 2], [(25, 100), (45, 150), (65, 200)], [[(10, 50), (20, 75), (30, 100)]],
          (Fin 2, 2), (Fin 5, 0),
          [rescale (Fin 2, 2) (Fin 5, 0) ex_pose, rescale (Fin 2, 2) (Fin 5, 0) ex_partial])"
  using flags_do_not_reach_alignment [of pixels ex_draw "ex_image ex_ref_pose"
      "[ex_image ex_pose, ex_image ex_partial]" False True False ex_draw True False True]
  by (simp add: ex_run_simp)

text \<open>
  Claim C7 asks for an explicit \<^verbatim>\<open>IncompleteFittingSetError\<close> on an empty driving
  sequence. The code has no such guard: on a reference with confident landmarks and no
  driving frame, the ValueError of \<^verbatim>\<open>np.stack\<close> on an empty list propagates.
\<close>

theorem empty_sequence_counterexample:
  "process pixels ex_draw (ex_image ex_ref_pose) [] True True True = Inl (Propagated ValueError)"
  by (rule ex_run_empty)

text \<open>
  Claim C7, amended. When no driving frame has a body detection of 18 rows (in particular
  when there is no driving frame), \<^verbatim>\<open>process\<close> returns nothing: it ends in an
  exception, and no pose image is produced. When the reference detection has the
  detector's shape (18 candidate rows and one score row of 18 per person), that exception
  is the ValueError that \<^verbatim>\<open>np.stack\<close> raises on an empty list, which propagates before
  the fit is called.
\<close>

theorem no_complete_frame_fails:
  assumes "filter (\<lambda>p. length (candidate (bodies p)) = 18) (map dwprocessor pose_images) = []"
  shows "isl (process dwprocessor draw_pose ref_image pose_images include_body include_hand include_face)
       \<and> (well_formed (dwprocessor ref_image) \<longrightarrow>
            process dwprocessor draw_pose ref_image pose_images include_body include_hand include_face
              = Inl (Propagated ValueError))"
proof -
  have 1: "isl (process dwprocessor draw_pose ref_image pose_images include_body include_hand include_face)"
    using assms unfolding process_def Let_def
    by (simp add: np_stack_take_def split: sum.splits)
  have 2: "process dwprocessor draw_pose ref_image pose_images include_body include_hand include_face
              = Inl (Propagated ValueError)" if "well_formed (dwprocessor ref_image)"
  proof -
    from well_formed_select [OF that] obtain ids rb where
      "select_keypoint_id (score (bodies (dwprocessor ref_image))) ref_keypoint_id0 = Inr ids"
      "np_take (candidate (bodies (dwprocessor ref_image))) ids = Inr rb"
      by blast
    then show ?thesis
      using assms unfolding process_def Let_def by (simp add: np_stack_take_def)
  qed
  from 1 2 show ?thesis by blast
qed

theorem no_complete_frame_fails_witness:
  "process pixels ex_draw (ex_image ex_ref_pose) [ex_image ex_partial] True True True
     = Inl (Propagated ValueError)"
proof -
  have f: "filter (\<lambda>p. length (candidate (bodies p)) = 18) (map pixels [ex_image ex_partial]) = []"
    by (simp add: ex_image_def ex_partial_def)
  have w: "well_formed (pixels (ex_image ex_ref_pose))"
    by (simp add: well_formed_def ex_image_def ex_ref_pose_def)
  from no_complete_frame_fails [OF f, of ex_draw "ex_image ex_ref_pose" True True True] w
  show ?thesis by blast
qed

section \<open>Properties of the tensor operations\<close>







lemma rounding_ex_cast: "rounding (ex_cast dt)"
  by (cases dt) (auto simp: rounding_def ex_cast_def round_mono divide_right_mono)

section \<open>The sampler\<close>




section \<open>The model loader\<close>

text \<open>
  Claim C8 says that the loader fails at once with the missing-dependency error when the
  stable-video-diffusion directory is absent. The guard comes after the checkpoint step:
  with the directory and the checkpoint both absent and no network, the loader first
  attempts the download of the checkpoint and ends in the exception of that download,
  not in the error of the guard.
\<close>

theorem download_precedes_guard_counterexample:
  "loadmodel ex_fetch_offline ex_build ''/m'' ''fp16'' ''MimicMotion-fp16.safetensors''
     \<lparr>existing = {}, trace = []\<rparr> =
   (Inl (Propagated OSError),
    \<lparr>existing = {},
     trace = [Snapshot_download ''Kijai/MimicMotion_pruned'' [''*MimicMotion-fp16.safetensors*'']
                ''/m/mimicmotion'']\<rparr>)"
  by (simp add: loadmodel_def dtype_of_def ensure_checkpoint_def ex_fetch_offline_def
      path_join_def Let_def)

text \<open>
  Claim C8, amended. For a precision among \<open>bf16\<close>, \<open>fp16\<close>, \<open>fp32\<close>, once the checkpoint
  step is over without an exception (the checkpoint was there, or its download returned),
  a missing stable-video-diffusion directory makes \<^verbatim>\<open>loadmodel\<close> end with the error that
  its own guard raises (\<^verbatim>\<open>raise ValueError\<close> at line 98, the spec's
  MissingDependencyError). Nothing is constructed, the base model is never fetched and
  nothing is retried: the only effect is the one download of the MimicMotion checkpoint
  into the \<^verbatim>\<open>mimicmotion\<close> directory, and only when the checkpoint did not exist.
\<close>

theorem missing_base_model_raises:
  assumes "dtype_of precision = Some dt"
    and "ensure_checkpoint snapshot_download (path_join models_dir ''mimicmotion'') model w = (None, w1)"
    and "path_join (path_join models_dir ''diffusers'') ''stable-video-diffusion-img2vid-xt-1-1''
           \<notin> existing w1"
  shows "loadmodel snapshot_download build models_dir precision model w = (Inl (Raised ValueError), w1)
       \<and> trace w1 = trace w @
           (if path_join (path_join models_dir ''mimicmotion'') model \<in> existing w then []
            else [Snapshot_download ''Kijai/MimicMotion_pruned'' [''*'' @ model @ ''*'']
                    (path_join models_dir ''mimicmotion'')])"
proof -
  have 1: "loadmodel snapshot_download build models_dir precision model w = (Inl (Raised ValueError), w1)"
    using assms by (simp add: loadmodel_def Let_def)
  have 2: "trace w1 = trace w @
           (if path_join (path_join models_dir ''mimicmotion'') model \<in> existing w then []
            else [Snapshot_download ''Kijai/MimicMotion_pruned'' [''*'' @ model @ ''*'']
                    (path_join models_dir ''mimicmotion'')])"
    using assms(2) by (auto simp: ensure_checkpoint_def Let_def split: if_splits sum.splits)
  from 1 2 show ?thesis by simp
qed

theorem missing_base_model_raises_witness:
  "loadmodel ex_fetch ex_build ''/m'' ''fp16'' ''MimicMotion-fp16.safetensors''
     \<lparr>existing = {}, trace = []\<rparr> =
   (Inl (Raised ValueError),
    \<lparr>existing = {''/m/mimicmotion/MimicMotion-fp16.safetensors''},
     trace = [Snapshot_download ''Kijai/MimicMotion_pruned'' [''*MimicMotion-fp16.safetensors*'']
                ''/m/mimicmotion'']\<rparr>)
   \<and> loadmodel ex_fetch ex_build ''/m'' ''fp16'' ''MimicMotion-fp16.safetensors''
     \<lparr>existing = {''/m/mimicmotion/MimicMotion-fp16.safetensors''}, trace = []\<rparr> =
   (Inl (Raised ValueError),
    \<lparr>existing = {''/m/mimicmotion/MimicMotion-fp16.safetensors''}, trace = []\<rparr>)"
proof -
  have d: "dtype_of ''fp16'' = Some Float16" by (simp add: dtype_of_def)
  have e: "ensure_checkpoint ex_fetch (path_join ''/m'' ''mimicmotion'') ''MimicMotion-fp16.safetensors''
             \<lparr>existing = {}, trace = []\<rparr> =
           (None, \<lparr>existing = {''/m/mimicmotion/MimicMotion-fp16.safetensors''},
     trace = [Snapshot_download ''Kijai/MimicMotion_pruned'' [''*MimicMotion-fp16.safetensors*'']
                ''/m/mimicmotion'']\<rparr>)"
    by (simp add: ensure_checkpoint_def ex_fetch_def path_join_def Let_def)
  have s: "path_join (path_join ''/m'' ''diffusers'') ''stable-video-diffusion-img2vid-xt-1-1''
           \<notin> existing \<lparr>existing = {''/m/mimicmotion/MimicMotion-fp16.safetensors''},
     trace = [Snapshot_download ''Kijai/MimicMotion_pruned'' [''*MimicMotion-fp16.safetensors*'']
                ''/m/mimicmotion'']\<rparr>"
    by (simp add: path_join_def)
  have e': "ensure_checkpoint ex_fetch (path_join ''/m'' ''mimicmotion'') ''MimicMotion-fp16.safetensors''
             \<lparr>existing = {''/m/mimicmotion/MimicMotion-fp16.safetensors''}, trace = []\<rparr> =
           (None, \<lparr>existing = {''/m/mimicmotion/MimicMotion-fp16.safetensors''}, trace = []\<rparr>)"
    by (simp add: ensure_checkpoint_def path_join_def Let_def)
  have s': "path_join (path_join ''/m'' ''diffusers'') ''stable-video-diffusion-img2vid-xt-1-1''
           \<notin> existing \<lparr>existing = {''/m/mimicmotion/MimicMotion-fp16.safetensors''}, trace = []\<rparr>"
    by (simp add: path_join_def)
  from missing_base_model_raises [OF d e s, of ex_build]
    missing_base_model_raises [OF d e' s', of ex_build]
  show ?thesis by simp
qed

end
